theory Spec2Isabelle
  imports Complex_Main "HOL-Library.Finite_Map" "HOL-Library.Word"
begin

section \<open>JavaScript values\<close>

text \<open>
  The key material, the decoded JWS header and the context documents are typed
  \<open>any\<close> in the source. They are modelled by the JSON values together with
  \<open>undefined\<close>. An object is a finite map from member names to values (member
  order plays no part in the code). \<open>JInherited k\<close> stands for the member named
  \<open>k\<close> that every ordinary object inherits from \<open>Object.prototype\<close>: a
  built-in function, or the prototype object itself for \<open>__proto__\<close>.
  A finite number is identified with the rational it denotes.
\<close>

datatype number = NaN | PosInfinity | NegInfinity | Finite rat

datatype jsval =
    JUndefined
  | JNull
  | JBool bool
  | JNumber number
  | JString string
  | JArray "jsval list"
  | JObject "(string, jsval) fmap"
  | JInherited string

text \<open>Conversion to boolean, as done by \<open>!x\<close>, \<open>if (x)\<close> and \<open>x || y\<close>.\<close>

fun truthy :: "jsval \<Rightarrow> bool" where
  "truthy JUndefined = False"
| "truthy JNull = False"
| "truthy (JBool b) = b"
| "truthy (JNumber n) = (n \<noteq> NaN \<and> n \<noteq> Finite 0)"
| "truthy (JString s) = (s \<noteq> [])"
| "truthy (JArray xs) = True"
| "truthy (JObject m) = True"
| "truthy (JInherited k) = True"

text \<open>\<open>typeof x === 'object'\<close>; it holds of \<open>null\<close> too.\<close>

fun typeof_object :: "jsval \<Rightarrow> bool" where
  "typeof_object JNull = True"
| "typeof_object (JArray xs) = True"
| "typeof_object (JObject m) = True"
| "typeof_object (JInherited k) = (k = ''__proto__'')"
| "typeof_object v = False"

text \<open>Decimal rendering of an array index, the name under which an element is a member.\<close>

definition digit_char :: "nat \<Rightarrow> char" where
  "digit_char d = char_of (48 + d)"

function string_of_nat :: "nat \<Rightarrow> string" where
  "string_of_nat n =
     (if n < 10 then [digit_char n] else string_of_nat (n div 10) @ [digit_char (n mod 10)])"
  by pat_completeness auto
termination
  by (relation "measure id") auto

declare string_of_nat.simps [simp del]

definition index_keys :: "nat \<Rightarrow> string list" where
  "index_keys n = map string_of_nat [0..<n]"

text \<open>
  The own enumerable members of a value: what the spread \<open>{ ...x }\<close> copies and
  what \<open>Object.keys\<close> lists. Spreading \<open>undefined\<close>, \<open>null\<close>, a boolean or a
  number copies nothing.
\<close>

fun own_props :: "jsval \<Rightarrow> (string, jsval) fmap" where
  "own_props (JObject m) = m"
| "own_props (JArray xs) = fmap_of_list (zip (index_keys (length xs)) xs)"
| "own_props (JString s) =
     fmap_of_list (zip (index_keys (length s)) (map (\<lambda>c. JString [c]) s))"
| "own_props v = fmempty"

definition spread :: "jsval \<Rightarrow> (string, jsval) fmap" where
  "spread v = own_props v"

definition delete_member :: "string \<Rightarrow> (string, jsval) fmap \<Rightarrow> (string, jsval) fmap" where
  "delete_member k m = fmdrop k m"

definition Object_keys_length :: "jsval \<Rightarrow> nat" where
  "Object_keys_length v = fcard (fmdom (own_props v))"

definition Object_prototype_names :: "string list" where
  "Object_prototype_names =
     [''constructor'', ''__defineGetter__'', ''__defineSetter__'', ''hasOwnProperty'',
      ''__lookupGetter__'', ''__lookupSetter__'', ''isPrototypeOf'',
      ''propertyIsEnumerable'', ''toString'', ''valueOf'', ''__proto__'',
      ''toLocaleString'']"

definition Object_prototype :: "string \<Rightarrow> jsval" where
  "Object_prototype k = (if k \<in> set Object_prototype_names then JInherited k else JUndefined)"

text \<open>
  Member access \<open>x.k\<close> and \<open>x[k]\<close>: an own member first, then the prototype
  chain. The code reads members of objects and arrays only (the header after its
  shape check, the context table). For an array its elements and \<open>length\<close> are
  modelled, which covers every name the code reads from one; any other value is
  given \<open>undefined\<close>.
\<close>

fun get_member :: "jsval \<Rightarrow> string \<Rightarrow> jsval" where
  "get_member (JObject m) k =
     (case fmlookup m k of Some v \<Rightarrow> v | None \<Rightarrow> Object_prototype k)"
| "get_member (JArray xs) k =
     (case fmlookup (own_props (JArray xs)) k of
        Some v \<Rightarrow> v
      | None \<Rightarrow> if k = ''length'' then JNumber (Finite (of_nat (length xs))) else JUndefined)"
| "get_member v k = JUndefined"

section \<open>Errors, byte buffers and effects\<close>

text \<open>A thrown error object: its \<open>name\<close> and its \<open>message\<close>.\<close>

datatype exn = Exn string string

abbreviation Error :: "string \<Rightarrow> exn" where
  "Error msg \<equiv> Exn ''Error'' msg"

text \<open>The string an error becomes in \<open>'...' + e\<close>.\<close>

fun exn_to_string :: "exn \<Rightarrow> string" where
  "exn_to_string (Exn name msg) =
     (if name = [] then msg else if msg = [] then name else name @ '': '' @ msg)"

type_synonym byte = "8 word"

text \<open>
  The payload argument \<open>data\<close> is a byte view: an underlying buffer, an offset into
  it and a length.
\<close>

record Uint8Array =
  buffer :: "byte list"
  byteOffset :: nat
  length_of :: nat

text \<open>
  \<open>Buffer.from(arrayBuffer, byteOffset, length)\<close>: the sub-range of the buffer, or a
  \<open>RangeError\<close> when the range does not lie inside it.
\<close>

definition Buffer_from :: "byte list \<Rightarrow> nat \<Rightarrow> nat \<Rightarrow> exn + byte list" where
  \<open>Buffer_from arrayBuffer offset len =
     (if length arrayBuffer < offset
      then Inl (Exn ''RangeError'' ''"offset" is outside of buffer bounds'')
      else if length arrayBuffer - offset < len
      then Inl (Exn ''RangeError'' ''"length" is outside of buffer bounds'')
      else Inr (take len (drop offset arrayBuffer)))\<close>

text \<open>
  The external collaborators of the module, which are not part of the repository's
  own logic: \<open>keyUtils.getKid\<close>, \<open>base64url.decode\<close>, \<open>JSON.parse\<close> and the
  two operations of \<open>SchnorrES256K\<close>. An operation that may throw returns a sum.
\<close>

record collaborators =
  getKid :: "jsval \<Rightarrow> string"
  base64url_decode :: "string \<Rightarrow> exn + string"
  JSON_parse :: "string \<Rightarrow> exn + jsval"
  signDetached :: "byte list \<Rightarrow> jsval \<Rightarrow> jsval \<Rightarrow> exn + string"
  verifyDetached :: "string \<Rightarrow> byte list \<Rightarrow> jsval \<Rightarrow> exn + jsval"

text \<open>
  What an asynchronous operation does besides settling: the calls it makes to the
  signing primitive and its writes to the console, in order.
\<close>

datatype effect =
    Called_signDetached "byte list" jsval jsval
  | Called_verifyDetached string "byte list" jsval
  | Console_error jsval

type_synonym 'a async = "(exn + 'a) \<times> effect list"

section \<open>The verification key\<close>

record ISchnorrSecp256k1VerificationKey2019Options =
  opt_id :: "string option"
  opt_type :: "string option"
  opt_controller :: string
  opt_privateKeyJwk :: jsval
  opt_publicKeyJwk :: jsval

record sign_input =
  data :: Uint8Array

record verify_input = sign_input +
  signature :: string

record ISigner =
  sign :: "sign_input \<Rightarrow> string async"

record IVerifier =
  verify :: "verify_input \<Rightarrow> bool async"

text \<open>\<open>s.split(sep)[0]\<close> for the two separators the code uses.\<close>

fun split_dotdot_first :: "string \<Rightarrow> string" where
  "split_dotdot_first (c # d # cs) =
     (if c = CHR ''.'' \<and> d = CHR ''.'' then [] else c # split_dotdot_first (d # cs))"
| "split_dotdot_first cs = cs"

definition split_hash_first :: "string \<Rightarrow> string" where
  "split_hash_first url = takeWhile (\<lambda>c. c \<noteq> CHR ''#'') url"

definition sign_header :: jsval where
  "sign_header =
     JObject (fmap_of_list
       [(''alg'', JString ''SchnorrES256K''),
        (''b64'', JBool False),
        (''crit'', JArray [JString ''b64''])])"

definition joseSignerFactory ::
  "collaborators \<Rightarrow> ISchnorrSecp256k1VerificationKey2019Options \<Rightarrow> ISigner" where
  "joseSignerFactory ext key =
     (if \<not> truthy (opt_privateKeyJwk key)
      then \<lparr>sign = (\<lambda>input. (Inl (Error ''No private key to sign with.''), []))\<rparr>
      else \<lparr>sign = (\<lambda>input.
              let header = sign_header in
              (case Buffer_from (buffer (data input)) (byteOffset (data input))
                      (length_of (data input)) of
                 Inl e \<Rightarrow> (Inl e, [])
               | Inr toBeSigned \<Rightarrow>
                   (signDetached ext toBeSigned (opt_privateKeyJwk key) header,
                    [Called_signDetached toBeSigned (opt_privateKeyJwk key) header])))\<rparr>)"

text \<open>The condition \<open>header.alg === alg && ... && header.crit[0] === 'b64'\<close>.\<close>

definition header_matches :: "jsval \<Rightarrow> bool" where
  "header_matches header =
     (get_member header ''alg'' = JString ''SchnorrES256K'' \<and>
      get_member header ''b64'' = JBool False \<and>
      (case get_member header ''crit'' of
         JArray crit \<Rightarrow> length crit = 1 \<and> crit ! 0 = JString ''b64''
       | _ \<Rightarrow> False))"

text \<open>\<open>JSON.parse(base64url.decode(encodedHeader))\<close>, the body of the \<open>try\<close>.\<close>

definition parse_header :: "collaborators \<Rightarrow> string \<Rightarrow> exn + jsval" where
  "parse_header ext encodedHeader =
     (case base64url_decode ext encodedHeader of
        Inl e \<Rightarrow> Inl e
      | Inr text \<Rightarrow> JSON_parse ext text)"

text \<open>The body of the \<open>verify\<close> closure that \<open>joseVerifierFactory\<close> returns for a key
  with public key material.\<close>

definition jose_verify ::
  "collaborators \<Rightarrow> ISchnorrSecp256k1VerificationKey2019Options \<Rightarrow> verify_input \<Rightarrow> bool async"
  where
  "jose_verify ext key input =
     (let encodedHeader = split_dotdot_first (signature input) in
      case parse_header ext encodedHeader of
        Inl e \<Rightarrow> (Inl (Error (''Could not parse JWS header; '' @ exn_to_string e)), [])
      | Inr header \<Rightarrow>
          if \<not> (truthy header \<and> typeof_object header)
          then (Inl (Error ''Invalid JWS header.''), [])
          else if \<not> header_matches header \<and> Object_keys_length header = 3
          then (Inl (Error
                  ''Invalid JWS header parameters for SchnorrSecp256k1VerificationKey2019.''),
                [Console_error header])
          else
            (case Buffer_from (buffer (data input)) (byteOffset (data input))
                    (length_of (data input)) of
               Inl e \<Rightarrow> (Inl e, [])
             | Inr payload \<Rightarrow>
                 (case verifyDetached ext (signature input) payload (opt_publicKeyJwk key) of
                    Inl e \<Rightarrow> (Inr False,
                      [Called_verifyDetached (signature input) payload (opt_publicKeyJwk key)])
                  | Inr r \<Rightarrow> (Inr True,
                      [Called_verifyDetached (signature input) payload (opt_publicKeyJwk key)]))))"

definition joseVerifierFactory ::
  "collaborators \<Rightarrow> ISchnorrSecp256k1VerificationKey2019Options \<Rightarrow> IVerifier" where
  "joseVerifierFactory ext key =
     (if \<not> truthy (opt_publicKeyJwk key)
      then \<lparr>verify = (\<lambda>input. (Inl (Error ''No public key to verify with.''), []))\<rparr>
      else \<lparr>verify = jose_verify ext key\<rparr>)"

text \<open>The class. Its instances implement the options interface.\<close>

record SchnorrSecp256k1VerificationKey2019 =
  key_id :: string
  key_type :: string
  controller :: string
  privateKeyJwk :: jsval
  publicKeyJwk :: jsval

definition as_options ::
  "SchnorrSecp256k1VerificationKey2019 \<Rightarrow> ISchnorrSecp256k1VerificationKey2019Options" where
  "as_options this =
     \<lparr>opt_id = Some (key_id this), opt_type = Some (key_type this),
      opt_controller = controller this, opt_privateKeyJwk = privateKeyJwk this,
      opt_publicKeyJwk = publicKeyJwk this\<rparr>"

definition fingerprintFromPublicKey ::
  "collaborators \<Rightarrow> ISchnorrSecp256k1VerificationKey2019Options \<Rightarrow> string" where
  "fingerprintFromPublicKey ext options =
     (let temp = spread (opt_publicKeyJwk options);
          temp = delete_member ''kid'' temp
      in getKid ext (JObject temp))"

definition fingerprint :: "collaborators \<Rightarrow> SchnorrSecp256k1VerificationKey2019 \<Rightarrow> string" where
  "fingerprint ext this =
     (let temp = spread (publicKeyJwk this);
          temp = delete_member ''kid'' temp
      in getKid ext (JObject temp))"

text \<open>\<open>s || d\<close> for an optional string \<open>s\<close>: absent and empty both give \<open>d\<close>.\<close>

fun or_else :: "string option \<Rightarrow> string \<Rightarrow> string" where
  "or_else None d = d"
| "or_else (Some s) d = (if s = [] then d else s)"

text \<open>
  The constructor assigns \<open>id\<close> last; \<open>fingerprint\<close>, which it calls before, does
  not read \<open>id\<close>.
\<close>

definition constructor ::
  "collaborators \<Rightarrow> ISchnorrSecp256k1VerificationKey2019Options \<Rightarrow>
   SchnorrSecp256k1VerificationKey2019" where
  "constructor ext options =
     (let this = \<lparr>key_id = [],
                  key_type = or_else (opt_type options) ''SchnorrSecp256k1VerificationKey2019'',
                  controller = opt_controller options,
                  privateKeyJwk = opt_privateKeyJwk options,
                  publicKeyJwk = opt_publicKeyJwk options\<rparr>;
          this = (if publicKeyJwk this = JUndefined
                  then this\<lparr>publicKeyJwk :=
                         JObject (delete_member ''d'' (spread (privateKeyJwk this)))\<rparr>
                  else this)
      in this\<lparr>key_id :=
           or_else (opt_id options) (controller this @ ''#'' @ fingerprint ext this)\<rparr>)"

definition signer :: "collaborators \<Rightarrow> SchnorrSecp256k1VerificationKey2019 \<Rightarrow> ISigner" where
  "signer ext this = joseSignerFactory ext (as_options this)"

definition verifier :: "collaborators \<Rightarrow> SchnorrSecp256k1VerificationKey2019 \<Rightarrow> IVerifier" where
  "verifier ext this = joseVerifierFactory ext (as_options this)"

section \<open>The context resolver\<close>

text \<open>
  The five context documents and the example DID document are loaded from JSON
  files; they are parameters here.
\<close>

record documents =
  did_v1 :: jsval
  did_v0_11 :: jsval
  security_v1 :: jsval
  security_v2 :: jsval
  schnorr_v1 :: jsval
  didDoc :: jsval

definition contexts :: "documents \<Rightarrow> jsval" where
  "contexts docs =
     JObject (fmap_of_list
       [(''https://www.w3.org/ns/did/v1'', did_v1 docs),
        (''https://w3id.org/did/v1'', did_v0_11 docs),
        (''https://w3id.org/security/v1'', security_v1 docs),
        (''https://w3id.org/security/v2'', security_v2 docs),
        (''https://identity.foundation/SchnorrSecp256k1Signature2019/contexts/schnorr-v1.json'',
         schnorr_v1 docs)])"

record loaded =
  contextUrl :: jsval
  document :: jsval
  documentUrl :: string

definition customLoader :: "documents \<Rightarrow> string \<Rightarrow> exn + loaded" where
  "customLoader docs url =
     (let context = get_member (contexts docs) url in
      if truthy context
      then Inr \<lparr>contextUrl = JNull, document = context, documentUrl = url\<rparr>
      else if split_hash_first url = ''did:example:123''
      then Inr \<lparr>contextUrl = JNull, document = didDoc docs, documentUrl = url\<rparr>
      else Inl (Error (''No custom context support for '' @ url)))"

section \<open>The error kinds of the specification\<close>

text \<open>
  The specification names the failures; the code throws plain \<open>Error\<close> objects that
  differ by their message. Each name stands for the error object the code throws.
\<close>

definition NoPrivateKey :: exn where
  "NoPrivateKey = Error ''No private key to sign with.''"

definition NoPublicKey :: exn where
  "NoPublicKey = Error ''No public key to verify with.''"

definition HeaderParseError :: "exn \<Rightarrow> exn" where
  "HeaderParseError e = Error (''Could not parse JWS header; '' @ exn_to_string e)"

definition InvalidHeaderShape :: exn where
  "InvalidHeaderShape = Error ''Invalid JWS header.''"

definition InvalidHeaderParameters :: exn where
  "InvalidHeaderParameters =
     Error ''Invalid JWS header parameters for SchnorrSecp256k1VerificationKey2019.''"

definition UnsupportedContextUrl :: "string \<Rightarrow> exn" where
  "UnsupportedContextUrl url = Error (''No custom context support for '' @ url)"

text \<open>A byte view as a typed array has it: the range lies inside the buffer.\<close>

definition view_in_bounds :: "Uint8Array \<Rightarrow> bool" where
  "view_in_bounds d = (byteOffset d + length_of d \<le> length (buffer d))"

text \<open>The bytes a view denotes.\<close>

definition payload_of :: "Uint8Array \<Rightarrow> byte list" where
  "payload_of d = take (length_of d) (drop (byteOffset d) (buffer d))"

text \<open>\<open>v\<close> has an own member named \<open>k\<close>.\<close>

definition has_own_member :: "jsval \<Rightarrow> string \<Rightarrow> bool" where
  "has_own_member v k = (k |\<in>| fmdom (own_props v))"

text \<open>The keys of the context table, and the document the table holds for each.\<close>

definition context_urls :: "string list" where
  "context_urls =
     [''https://www.w3.org/ns/did/v1'', ''https://w3id.org/did/v1'',
      ''https://w3id.org/security/v1'', ''https://w3id.org/security/v2'',
      ''https://identity.foundation/SchnorrSecp256k1Signature2019/contexts/schnorr-v1.json'']"

definition preloaded :: "documents \<Rightarrow> string \<Rightarrow> jsval" where
  "preloaded docs url =
     (if url = ''https://www.w3.org/ns/did/v1'' then did_v1 docs
      else if url = ''https://w3id.org/did/v1'' then did_v0_11 docs
      else if url = ''https://w3id.org/security/v1'' then security_v1 docs
      else if url = ''https://w3id.org/security/v2'' then security_v2 docs
      else schnorr_v1 docs)"

definition documents_truthy :: "documents \<Rightarrow> bool" where
  "documents_truthy docs =
     (truthy (did_v1 docs) \<and> truthy (did_v0_11 docs) \<and> truthy (security_v1 docs) \<and>
      truthy (security_v2 docs) \<and> truthy (schnorr_v1 docs))"

section \<open>Sample inputs\<close>

text \<open>
  Concrete collaborators and inputs at which the theorems below are instantiated.
  The header segments are the base64url encodings of the JSON texts next to
  them; the sample thumbprint reads the \<open>x\<close> member, the sample primitive accepts
  one signature string.
\<close>

definition sample_header_segment :: string where
  "sample_header_segment =
     ''eyJhbGciOiJTY2hub3JyRVMyNTZLIiwiYjY0IjpmYWxzZSwiY3JpdCI6WyJiNjQiXX0''"

definition sample_header_text :: string where
  \<open>sample_header_text = ''{"alg":"SchnorrES256K","b64":false,"crit":["b64"]}''\<close>

definition wrong_alg_segment :: string where
  "wrong_alg_segment = ''eyJhbGciOiJXcm9uZyIsImI2NCI6ZmFsc2UsImNyaXQiOlsiYjY0Il19''"

definition wrong_alg_text :: string where
  \<open>wrong_alg_text = ''{"alg":"Wrong","b64":false,"crit":["b64"]}''\<close>

definition wrong_alg_header :: jsval where
  "wrong_alg_header =
     JObject (fmap_of_list
       [(''alg'', JString ''Wrong''),
        (''b64'', JBool False),
        (''crit'', JArray [JString ''b64''])])"

definition extra_key_segment :: string where
  "extra_key_segment =
     ''eyJhbGciOiJTY2hub3JyRVMyNTZLIiwiYjY0IjpmYWxzZSwiY3JpdCI6WyJiNjQiXSwia2lkIjoia2V5LTEifQ''"

definition extra_key_text :: string where
  \<open>extra_key_text = ''{"alg":"SchnorrES256K","b64":false,"crit":["b64"],"kid":"key-1"}''\<close>

definition extra_key_header :: jsval where
  "extra_key_header =
     JObject (fmap_of_list
       [(''alg'', JString ''SchnorrES256K''),
        (''b64'', JBool False),
        (''crit'', JArray [JString ''b64'']),
        (''kid'', JString ''key-1'')])"

definition b64_true_segment :: string where
  "b64_true_segment =
     ''eyJhbGciOiJTY2hub3JyRVMyNTZLIiwiYjY0Ijp0cnVlLCJjcml0IjpbImI2NCJdfQ''"

definition b64_true_text :: string where
  \<open>b64_true_text = ''{"alg":"SchnorrES256K","b64":true,"crit":["b64"]}''\<close>

definition b64_true_header :: jsval where
  "b64_true_header =
     JObject (fmap_of_list
       [(''alg'', JString ''SchnorrES256K''),
        (''b64'', JBool True),
        (''crit'', JArray [JString ''b64''])])"

definition long_crit_segment :: string where
  "long_crit_segment =
     ''eyJhbGciOiJTY2hub3JyRVMyNTZLIiwiYjY0IjpmYWxzZSwiY3JpdCI6WyJiNjQiLCJleHAiXX0''"

definition long_crit_text :: string where
  \<open>long_crit_text = ''{"alg":"SchnorrES256K","b64":false,"crit":["b64","exp"]}''\<close>

definition long_crit_header :: jsval where
  "long_crit_header =
     JObject (fmap_of_list
       [(''alg'', JString ''SchnorrES256K''),
        (''b64'', JBool False),
        (''crit'', JArray [JString ''b64'', JString ''exp''])])"

definition sample_good_signature :: string where
  "sample_good_signature = sample_header_segment @ ''..c2lnbmF0dXJl''"

definition sample_collaborators :: collaborators where
  "sample_collaborators =
     \<lparr>getKid = (\<lambda>jwk. case get_member jwk ''x'' of JString x \<Rightarrow> x | _ \<Rightarrow> ''none''),
      base64url_decode = (\<lambda>s.
        if s = sample_header_segment then Inr sample_header_text
        else if s = wrong_alg_segment then Inr wrong_alg_text
        else if s = extra_key_segment then Inr extra_key_text
        else if s = b64_true_segment then Inr b64_true_text
        else if s = long_crit_segment then Inr long_crit_text
        else Inr []),
      JSON_parse = (\<lambda>t.
        if t = sample_header_text then Inr sign_header
        else if t = wrong_alg_text then Inr wrong_alg_header
        else if t = extra_key_text then Inr extra_key_header
        else if t = b64_true_text then Inr b64_true_header
        else if t = long_crit_text then Inr long_crit_header
        else Inl (Exn ''SyntaxError'' ''Unexpected end of JSON input'')),
      signDetached = (\<lambda>payload jwk header. Inr sample_good_signature),
      verifyDetached = (\<lambda>sig payload jwk.
        if sig = sample_good_signature then Inr (JBool True)
        else Inl (Error ''Signature verification failed.''))\<rparr>"

definition sample_public_jwk :: "(string, jsval) fmap" where
  "sample_public_jwk =
     fmupd ''kty'' (JString ''EC'')
       (fmupd ''crv'' (JString ''secp256k1'')
         (fmupd ''x'' (JString ''4xAbUxbGGFPv4qpHlPFAUJdzteUGR1lRK-CELCufU9w'')
           (fmupd ''y'' (JString ''EYcgCTsff1qtZjI9_ckZTXDSKAIuM0BknrKgo0BZ_Is'') fmempty)))"

definition sample_private_jwk :: "(string, jsval) fmap" where
  "sample_private_jwk =
     fmupd ''d'' (JString ''rhYFsBPF9q3-uZThy7B3c4LDF_8wnozFUAEm5LLC4Zw'') sample_public_jwk"

definition sample_data :: Uint8Array where
  "sample_data = \<lparr>buffer = [0, 1, 2, 3, 4, 5], byteOffset = 1, length_of = 3\<rparr>"

definition private_only_options :: ISchnorrSecp256k1VerificationKey2019Options where
  "private_only_options =
     \<lparr>opt_id = None, opt_type = None, opt_controller = ''did:example:123'',
      opt_privateKeyJwk = JObject sample_private_jwk, opt_publicKeyJwk = JUndefined\<rparr>"

definition public_only_options :: ISchnorrSecp256k1VerificationKey2019Options where
  "public_only_options =
     \<lparr>opt_id = None, opt_type = None, opt_controller = ''did:example:123'',
      opt_privateKeyJwk = JUndefined, opt_publicKeyJwk = JObject sample_public_jwk\<rparr>"

definition sample_documents :: documents where
  "sample_documents =
     \<lparr>did_v1 = JObject (fmupd ''@context'' (JString ''did-v1'') fmempty),
      did_v0_11 = JObject (fmupd ''@context'' (JString ''did-v0.11'') fmempty),
      security_v1 = JObject (fmupd ''@context'' (JString ''security-v1'') fmempty),
      security_v2 = JObject (fmupd ''@context'' (JString ''security-v2'') fmempty),
      schnorr_v1 = JObject (fmupd ''@context'' (JString ''schnorr-v1'') fmempty),
      didDoc = JObject (fmupd ''id'' (JString ''did:example:123'') fmempty)\<rparr>"

definition sample_wrong_alg_signature :: string where
  "sample_wrong_alg_signature = wrong_alg_segment @ ''..c2lnbmF0dXJl''"

definition sample_extra_key_signature :: string where
  "sample_extra_key_signature = extra_key_segment @ ''..c2lnbmF0dXJl''"

definition sample_b64_true_signature :: string where
  "sample_b64_true_signature = b64_true_segment @ ''..c2lnbmF0dXJl''"

definition sample_long_crit_signature :: string where
  "sample_long_crit_signature = long_crit_segment @ ''..c2lnbmF0dXJl''"

definition sample_tampered_signature :: string where
  "sample_tampered_signature = sample_header_segment @ ''..dGFtcGVyZWQ''"

definition empty_id_options :: ISchnorrSecp256k1VerificationKey2019Options where
  "empty_id_options =
     \<lparr>opt_id = Some [], opt_type = None, opt_controller = ''did:example:123'',
      opt_privateKeyJwk = JUndefined, opt_publicKeyJwk = JObject sample_public_jwk\<rparr>"

definition explicit_id_options :: ISchnorrSecp256k1VerificationKey2019Options where
  "explicit_id_options =
     \<lparr>opt_id = Some ''did:example:123#key-1'', opt_type = None,
      opt_controller = ''did:example:123'',
      opt_privateKeyJwk = JUndefined, opt_publicKeyJwk = JObject sample_public_jwk\<rparr>"

definition private_as_public_options :: ISchnorrSecp256k1VerificationKey2019Options where
  "private_as_public_options =
     \<lparr>opt_id = None, opt_type = None, opt_controller = ''did:example:123'',
      opt_privateKeyJwk = JUndefined, opt_publicKeyJwk = JObject sample_private_jwk\<rparr>"

definition null_public_options :: ISchnorrSecp256k1VerificationKey2019Options where
  "null_public_options =
     \<lparr>opt_id = None, opt_type = None, opt_controller = ''did:example:123'',
      opt_privateKeyJwk = JObject sample_private_jwk, opt_publicKeyJwk = JNull\<rparr>"

section \<open>Auxiliary facts\<close>

subsection \<open>Objects and buffers\<close>

lemma Object_keys_length_of_list:
  "Object_keys_length (JObject (fmap_of_list kvs)) = length (remdups (map fst kvs))"
proof -
  have "fset (fmdom (fmap_of_list kvs)) = set (map fst kvs)"
    by (simp add: fmdom_of_list fset_of_list.rep_eq)
  then show ?thesis
    unfolding Object_keys_length_def by (simp add: fcard.rep_eq List.card_set del: set_map)
qed

lemma fcard_fmdom_of_list:
  "fcard (fmdom (fmap_of_list (kvs :: (string \<times> jsval) list)))
     = length (remdups (map fst kvs))"
  using Object_keys_length_of_list [of kvs] by (simp add: Object_keys_length_def)

lemmas of_list_eval =
  fmlookup_of_list fcard_fmdom_of_list

text \<open>
  Array indices are rendered in decimal: distinct indices give distinct member
  names, and no member name of an array element contains a letter.
\<close>

lemma of_char_digit_char: "d < 10 \<Longrightarrow> (of_char (digit_char d) :: nat) = 48 + d"
  by (simp add: digit_char_def)

lemma digit_char_inj:
  assumes "a < 10" "b < 10" "digit_char a = digit_char b"
  shows "a = b"
proof -
  have "(of_char (digit_char a) :: nat) = of_char (digit_char b)"
    using assms(3) by simp
  then show ?thesis using assms(1,2) by (simp add: of_char_digit_char)
qed

lemma string_of_nat_digits:
  "c \<in> set (string_of_nat n) \<Longrightarrow> (of_char c :: nat) < 58"
proof (induction n arbitrary: c rule: string_of_nat.induct)
  case (1 n)
  show ?case
  proof (cases "n < 10")
    case True
    with "1.prems" have "c = digit_char n"
      by (simp add: string_of_nat.simps [of n])
    with True show ?thesis by (simp add: of_char_digit_char)
  next
    case False
    with "1.prems" have "c \<in> set (string_of_nat (n div 10)) \<or> c = digit_char (n mod 10)"
      by (auto simp: string_of_nat.simps [of n])
    then show ?thesis
    proof
      assume "c \<in> set (string_of_nat (n div 10))"
      with "1.IH" False show ?thesis by simp
    next
      assume "c = digit_char (n mod 10)"
      then show ?thesis by (simp add: of_char_digit_char)
    qed
  qed
qed

lemma string_of_nat_not_Nil: "string_of_nat n \<noteq> []"
  by (simp add: string_of_nat.simps [of n])

lemma string_of_nat_inj: "string_of_nat n = string_of_nat m \<Longrightarrow> n = m"
proof (induction n arbitrary: m rule: string_of_nat.induct)
  case (1 n)
  show ?case
  proof (cases "n < 10")
    case n: True
    show ?thesis
    proof (cases "m < 10")
      case True
      with n "1.prems" show ?thesis
        by (simp add: string_of_nat.simps [of n] string_of_nat.simps [of m] digit_char_inj)
    next
      case False
      with n "1.prems" have "[digit_char n] = string_of_nat (m div 10) @ [digit_char (m mod 10)]"
        by (simp add: string_of_nat.simps [of n] string_of_nat.simps [of m])
      then have "string_of_nat (m div 10) = []" by simp
      then show ?thesis by (simp add: string_of_nat_not_Nil)
    qed
  next
    case n: False
    show ?thesis
    proof (cases "m < 10")
      case True
      with n "1.prems" have "string_of_nat (n div 10) @ [digit_char (n mod 10)] = [digit_char m]"
        by (simp add: string_of_nat.simps [of n] string_of_nat.simps [of m])
      then have "string_of_nat (n div 10) = []" by simp
      then show ?thesis by (simp add: string_of_nat_not_Nil)
    next
      case False
      with n "1.prems" have e: "string_of_nat (n div 10) = string_of_nat (m div 10)"
        and d: "digit_char (n mod 10) = digit_char (m mod 10)"
        by (simp_all add: string_of_nat.simps [of n] string_of_nat.simps [of m])
      from "1.IH" [OF n e] have "n div 10 = m div 10" .
      moreover from d have "n mod 10 = m mod 10" by (simp add: digit_char_inj)
      ultimately show ?thesis by (metis div_mult_mod_eq)
    qed
  qed
qed

lemma index_keys_length: "length (index_keys n) = n"
  by (simp add: index_keys_def)

lemma index_keys_distinct: "distinct (index_keys n)"
  unfolding index_keys_def
  by (simp add: distinct_map inj_on_def string_of_nat_inj)

lemma alg_not_index_key: "''alg'' \<notin> set (index_keys n)"
proof
  assume "''alg'' \<in> set (index_keys n)"
  then obtain i where "string_of_nat i = ''alg''"
    by (auto simp: index_keys_def)
  then have "CHR ''a'' \<in> set (string_of_nat i)" by simp
  from string_of_nat_digits [OF this] show False by simp
qed

text \<open>The number of keys of an object and of an array.\<close>

lemma Object_keys_length_object: "Object_keys_length (JObject m) = fcard (fmdom m)"
  by (simp add: Object_keys_length_def)

lemma Object_keys_length_array: "Object_keys_length (JArray xs) = length xs"
proof -
  have "fset (fmdom (fmap_of_list (zip (index_keys (length xs)) xs)))
          = set (index_keys (length xs))"
    by (simp add: fmdom_of_list fset_of_list.rep_eq index_keys_length
             flip: set_map)
  then show ?thesis
    by (simp add: Object_keys_length_def fcard.rep_eq distinct_card index_keys_distinct
                  index_keys_length)
qed

lemma Buffer_from_in_bounds:
  "view_in_bounds d \<Longrightarrow>
   Buffer_from (buffer d) (byteOffset d) (length_of d) = Inr (payload_of d)"
  by (simp add: Buffer_from_def view_in_bounds_def payload_of_def)

lemma Buffer_from_error_name:
  "Buffer_from b off len = Inl e \<Longrightarrow> \<exists>msg. e = Exn ''RangeError'' msg"
  by (auto simp: Buffer_from_def split: if_splits)

subsection \<open>The verifier, branch by branch\<close>

lemma verifier_with_public_key:
  "truthy (publicKeyJwk this) \<Longrightarrow>
   verify (verifier ext this) = jose_verify ext (as_options this)"
  by (simp add: verifier_def joseVerifierFactory_def as_options_def)

lemma verifier_without_public_key:
  "\<not> truthy (publicKeyJwk this) \<Longrightarrow>
   verify (verifier ext this) input = (Inl NoPublicKey, [])"
  by (simp add: verifier_def joseVerifierFactory_def as_options_def NoPublicKey_def)

lemma jose_verify_unparsed:
  "parse_header ext (split_dotdot_first (signature input)) = Inl e \<Longrightarrow>
   jose_verify ext key input = (Inl (HeaderParseError e), [])"
  by (simp add: jose_verify_def HeaderParseError_def)

lemma jose_verify_bad_shape:
  "parse_header ext (split_dotdot_first (signature input)) = Inr header \<Longrightarrow>
   \<not> (truthy header \<and> typeof_object header) \<Longrightarrow>
   jose_verify ext key input = (Inl InvalidHeaderShape, [])"
  by (simp add: jose_verify_def InvalidHeaderShape_def)

lemma jose_verify_rejected:
  "parse_header ext (split_dotdot_first (signature input)) = Inr header \<Longrightarrow>
   truthy header \<Longrightarrow> typeof_object header \<Longrightarrow>
   \<not> header_matches header \<Longrightarrow> Object_keys_length header = 3 \<Longrightarrow>
   jose_verify ext key input = (Inl InvalidHeaderParameters, [Console_error header])"
  by (simp add: jose_verify_def InvalidHeaderParameters_def)

lemma jose_verify_accepted:
  "parse_header ext (split_dotdot_first (signature input)) = Inr header \<Longrightarrow>
   truthy header \<Longrightarrow> typeof_object header \<Longrightarrow>
   \<not> (\<not> header_matches header \<and> Object_keys_length header = 3) \<Longrightarrow>
   jose_verify ext key input =
     (case Buffer_from (buffer (data input)) (byteOffset (data input))
             (length_of (data input)) of
        Inl e \<Rightarrow> (Inl e, [])
      | Inr payload \<Rightarrow>
          (Inr (\<not> isl (verifyDetached ext (signature input) payload (opt_publicKeyJwk key))),
           [Called_verifyDetached (signature input) payload (opt_publicKeyJwk key)]))"
  by (auto simp: jose_verify_def split: sum.splits)

text \<open>
  The header check on an object, member by member; an array never passes it, since
  it has no member \<open>alg\<close>.
\<close>

lemma header_matches_object:
  "header_matches (JObject m) \<longleftrightarrow>
     fmlookup m ''alg'' = Some (JString ''SchnorrES256K'') \<and>
     fmlookup m ''b64'' = Some (JBool False) \<and>
     fmlookup m ''crit'' = Some (JArray [JString ''b64''])"
proof -
  have a: "get_member (JObject m) ''alg'' = JString ''SchnorrES256K''
             \<longleftrightarrow> fmlookup m ''alg'' = Some (JString ''SchnorrES256K'')"
    by (simp add: Object_prototype_def Object_prototype_names_def split: option.splits)
  have b: "get_member (JObject m) ''b64'' = JBool False
             \<longleftrightarrow> fmlookup m ''b64'' = Some (JBool False)"
    by (simp add: Object_prototype_def Object_prototype_names_def split: option.splits)
  have c: "(case get_member (JObject m) ''crit'' of
              JArray crit \<Rightarrow> length crit = 1 \<and> crit ! 0 = JString ''b64''
            | _ \<Rightarrow> False)
             \<longleftrightarrow> fmlookup m ''crit'' = Some (JArray [JString ''b64''])"
    by (auto simp: Object_prototype_def Object_prototype_names_def length_Suc_conv
             split: option.splits jsval.splits)
  show ?thesis unfolding header_matches_def a b c ..
qed

lemma header_matches_array: "\<not> header_matches (JArray xs)"
proof -
  have "map_of (zip (index_keys (length xs)) xs) ''alg'' = None"
    using alg_not_index_key [of "length xs"]
    by (auto simp: map_of_eq_None_iff dest: set_zip_leftD)
  then have "get_member (JArray xs) ''alg'' = JUndefined"
    by (simp add: fmlookup_of_list)
  then show ?thesis by (simp add: header_matches_def)
qed

lemma range_error_not_header_error:
  "Exn ''RangeError'' msg \<noteq> InvalidHeaderParameters"
  by (simp add: InvalidHeaderParameters_def)

lemma jose_verify_not_NoPublicKey:
  "fst (jose_verify ext key input) \<noteq> Inl NoPublicKey"
  by (auto simp: jose_verify_def NoPublicKey_def Let_def
           split: sum.splits if_splits dest!: Buffer_from_error_name)

subsection \<open>The constructor and the fingerprint\<close>

lemma constructor_publicKeyJwk:
  "publicKeyJwk (constructor ext options) =
     (if opt_publicKeyJwk options = JUndefined
      then JObject (fmdrop ''d'' (own_props (opt_privateKeyJwk options)))
      else opt_publicKeyJwk options)"
  by (simp add: constructor_def Let_def spread_def delete_member_def)

lemma constructor_privateKeyJwk:
  "privateKeyJwk (constructor ext options) = opt_privateKeyJwk options"
  by (simp add: constructor_def Let_def)

lemma constructor_controller:
  "controller (constructor ext options) = opt_controller options"
  by (simp add: constructor_def Let_def)

lemma fingerprint_eq:
  "fingerprint ext this = getKid ext (JObject (fmdrop ''kid'' (own_props (publicKeyJwk this))))"
  by (simp add: fingerprint_def spread_def delete_member_def)

lemma fingerprintFromPublicKey_eq:
  "fingerprintFromPublicKey ext options =
     getKid ext (JObject (fmdrop ''kid'' (own_props (opt_publicKeyJwk options))))"
  by (simp add: fingerprintFromPublicKey_def spread_def delete_member_def)

lemma constructor_key_id:
  "key_id (constructor ext options) =
     or_else (opt_id options)
       (opt_controller options @ ''#'' @ fingerprint ext (constructor ext options))"
  by (simp add: constructor_def Let_def fingerprint_eq)

subsection \<open>The sample inputs evaluated\<close>

lemmas sample_defs =
  sample_collaborators_def sample_header_segment_def wrong_alg_segment_def
  extra_key_segment_def sample_header_text_def wrong_alg_text_def extra_key_text_def
  sample_good_signature_def sample_wrong_alg_signature_def sample_extra_key_signature_def
  sample_tampered_signature_def b64_true_segment_def b64_true_text_def long_crit_segment_def
  long_crit_text_def sample_b64_true_signature_def sample_long_crit_signature_def

lemma sample_parse_good:
  "parse_header sample_collaborators (split_dotdot_first sample_good_signature) = Inr sign_header"
  by (simp add: parse_header_def sample_defs)

lemma sample_parse_tampered:
  "parse_header sample_collaborators (split_dotdot_first sample_tampered_signature) = Inr sign_header"
  by (simp add: parse_header_def sample_defs)

lemma sample_decode:
  "base64url_decode sample_collaborators
     (split_dotdot_first (signature \<lparr>data = d, signature = sample_good_signature\<rparr>))
     = Inr sample_header_text"
  "base64url_decode sample_collaborators
     (split_dotdot_first (signature \<lparr>data = d, signature = sample_wrong_alg_signature\<rparr>))
     = Inr wrong_alg_text"
  "base64url_decode sample_collaborators
     (split_dotdot_first (signature \<lparr>data = d, signature = sample_extra_key_signature\<rparr>))
     = Inr extra_key_text"
  "base64url_decode sample_collaborators
     (split_dotdot_first (signature \<lparr>data = d, signature = sample_b64_true_signature\<rparr>))
     = Inr b64_true_text"
  "base64url_decode sample_collaborators
     (split_dotdot_first (signature \<lparr>data = d, signature = sample_long_crit_signature\<rparr>))
     = Inr long_crit_text"
  by (simp_all add: sample_defs)

lemma sample_JSON_parse:
  "JSON_parse sample_collaborators sample_header_text = Inr sign_header"
  "JSON_parse sample_collaborators wrong_alg_text = Inr wrong_alg_header"
  "JSON_parse sample_collaborators extra_key_text = Inr extra_key_header"
  "JSON_parse sample_collaborators b64_true_text = Inr b64_true_header"
  "JSON_parse sample_collaborators long_crit_text = Inr long_crit_header"
  by (simp_all add: sample_defs)

lemma sign_header_matches: "header_matches sign_header"
  by (simp add: header_matches_def sign_header_def)

lemma sample_verifyDetached:
  "verifyDetached sample_collaborators sig payload jwk =
     (if sig = sample_good_signature then Inr (JBool True)
      else Inl (Error ''Signature verification failed.''))"
  by (simp add: sample_collaborators_def)

lemma sample_data_in_bounds: "view_in_bounds sample_data"
  by (simp add: view_in_bounds_def sample_data_def)

lemma sample_payload: "payload_of sample_data = [1, 2, 3]"
  by (simp add: payload_of_def sample_data_def)

lemma sample_fingerprint:
  "getKid sample_collaborators (JObject (fmdrop ''kid'' sample_public_jwk))
     = ''4xAbUxbGGFPv4qpHlPFAUJdzteUGR1lRK-CELCufU9w''"
  by (simp add: sample_collaborators_def sample_public_jwk_def)

lemma sample_private_without_d: "fmdrop ''d'' sample_private_jwk = sample_public_jwk"
  by (simp add: sample_private_jwk_def sample_public_jwk_def fmdrop_fmupd)

lemma sample_private_only_publicKeyJwk:
  "publicKeyJwk (constructor sample_collaborators private_only_options)
     = JObject sample_public_jwk"
  by (simp add: constructor_publicKeyJwk private_only_options_def sample_private_without_d)

lemma sample_public_only_fingerprint:
  "opt_publicKeyJwk options = JObject sample_public_jwk \<Longrightarrow>
   fingerprint sample_collaborators (constructor sample_collaborators options)
     = ''4xAbUxbGGFPv4qpHlPFAUJdzteUGR1lRK-CELCufU9w''"
  using sample_fingerprint
  by (simp add: fingerprint_eq constructor_publicKeyJwk)

section \<open>Header validation in the verifier\<close>

text \<open>
  Claim C1. Take a key with public key material and a signature whose header segment
  is decoded by \<open>base64url.decode\<close> and parsed by \<open>JSON.parse\<close> to a header.
  When the header is an object, \<open>verify\<close> fails with \<open>InvalidHeaderParameters\<close> if
  and only if the header fails the parameter checks (its \<open>alg\<close> is
  \<open>SchnorrES256K\<close>, its \<open>b64\<close> is \<open>false\<close>, its \<open>crit\<close> is exactly
  \<open>["b64"]\<close>) and has exactly three keys. When the header is an array, which never
  meets the checks, it fails so if and only if the array has three elements. In
  particular the header \<open>{"alg":"Wrong","b64":false,"crit":["b64"]}\<close> is rejected
  with that error, after being written to the console. An object header that meets
  the three checks passes validation whatever further keys it carries: \<open>verify\<close>
  then calls the verification primitive on the sliced payload and returns its
  outcome.
\<close>

theorem verify_invalid_header_parameters:
  assumes pub: "truthy (publicKeyJwk this)"
    and decoded: "base64url_decode ext (split_dotdot_first (signature input)) = Inr text"
    and parsed: "JSON_parse ext text = Inr header"
  shows "(\<forall>m. header = JObject m \<longrightarrow>
            (fst (verify (verifier ext this) input) = Inl InvalidHeaderParameters
               \<longleftrightarrow> \<not> (fmlookup m ''alg'' = Some (JString ''SchnorrES256K'') \<and>
                      fmlookup m ''b64'' = Some (JBool False) \<and>
                      fmlookup m ''crit'' = Some (JArray [JString ''b64''])) \<and>
                   fcard (fmdom m) = 3))
       \<and> (\<forall>xs. header = JArray xs \<longrightarrow>
            (fst (verify (verifier ext this) input) = Inl InvalidHeaderParameters
               \<longleftrightarrow> length xs = 3))
       \<and> (header = JObject (fmap_of_list
                      [(''alg'', JString ''Wrong''), (''b64'', JBool False),
                       (''crit'', JArray [JString ''b64''])])
            \<longrightarrow> verify (verifier ext this) input =
                  (Inl InvalidHeaderParameters, [Console_error header]))
       \<and> (\<forall>m. header = JObject m \<and>
               fmlookup m ''alg'' = Some (JString ''SchnorrES256K'') \<and>
               fmlookup m ''b64'' = Some (JBool False) \<and>
               fmlookup m ''crit'' = Some (JArray [JString ''b64'']) \<and>
               view_in_bounds (data input)
            \<longrightarrow> verify (verifier ext this) input =
                  (Inr (\<not> isl (verifyDetached ext (signature input) (payload_of (data input))
                                 (publicKeyJwk this))),
                   [Called_verifyDetached (signature input) (payload_of (data input))
                      (publicKeyJwk this)]))"
proof -
  let ?r = "verify (verifier ext this) input"
  let ?wrong = "JObject (fmap_of_list
                      [(''alg'', JString ''Wrong''), (''b64'', JBool False),
                       (''crit'', JArray [JString ''b64''])])"
  have p: "parse_header ext (split_dotdot_first (signature input)) = Inr header"
    by (simp add: parse_header_def decoded parsed)
  have v: "?r = jose_verify ext (as_options this) input"
    using pub by (simp add: verifier_with_public_key)
  have rej: "?r = (Inl InvalidHeaderParameters, [Console_error header])"
    if "truthy header" "typeof_object header"
       "\<not> header_matches header" "Object_keys_length header = 3"
    using jose_verify_rejected [OF p that] v by simp
  have acc: "fst ?r \<noteq> Inl InvalidHeaderParameters"
    if "truthy header" "typeof_object header"
       "\<not> (\<not> header_matches header \<and> Object_keys_length header = 3)"
    using jose_verify_accepted [OF p that, of "as_options this"] v
    by (auto simp: range_error_not_header_error split: sum.splits
             dest!: Buffer_from_error_name)
  have obj: "fst ?r = Inl InvalidHeaderParameters
               \<longleftrightarrow> \<not> (fmlookup m ''alg'' = Some (JString ''SchnorrES256K'') \<and>
                      fmlookup m ''b64'' = Some (JBool False) \<and>
                      fmlookup m ''crit'' = Some (JArray [JString ''b64''])) \<and>
                   fcard (fmdom m) = 3"
    if h: "header = JObject m" for m
  proof (cases "\<not> header_matches header \<and> Object_keys_length header = 3")
    case True
    then have "fst ?r = Inl InvalidHeaderParameters"
      using rej h by simp
    with True show ?thesis
      by (simp add: h header_matches_object Object_keys_length_object)
  next
    case False
    then have "fst ?r \<noteq> Inl InvalidHeaderParameters"
      using acc h by simp
    with False show ?thesis
      by (simp add: h header_matches_object Object_keys_length_object)
  qed
  have arr: "fst ?r = Inl InvalidHeaderParameters \<longleftrightarrow> length xs = 3"
    if h: "header = JArray xs" for xs
  proof (cases "length xs = 3")
    case True
    then have "fst ?r = Inl InvalidHeaderParameters"
      using rej h by (simp add: header_matches_array Object_keys_length_array)
    with True show ?thesis by simp
  next
    case False
    then have "fst ?r \<noteq> Inl InvalidHeaderParameters"
      using acc h by (simp add: Object_keys_length_array)
    with False show ?thesis by simp
  qed
  have wrong: "?r = (Inl InvalidHeaderParameters, [Console_error header])"
    if h: "header = ?wrong"
  proof -
    have "\<not> header_matches ?wrong"
      by (simp add: header_matches_def)
    moreover have "Object_keys_length ?wrong = 3"
      unfolding Object_keys_length_of_list by simp
    ultimately show ?thesis using rej h by simp
  qed
  have ok: "?r = (Inr (\<not> isl (verifyDetached ext (signature input) (payload_of (data input))
                                 (publicKeyJwk this))),
                   [Called_verifyDetached (signature input) (payload_of (data input))
                      (publicKeyJwk this)])"
    if "header = JObject m"
       "fmlookup m ''alg'' = Some (JString ''SchnorrES256K'')"
       "fmlookup m ''b64'' = Some (JBool False)"
       "fmlookup m ''crit'' = Some (JArray [JString ''b64''])"
       "view_in_bounds (data input)" for m
  proof -
    have "header_matches header"
      using that by (simp add: header_matches_object)
    then have "\<not> (\<not> header_matches header \<and> Object_keys_length header = 3)" by simp
    from jose_verify_accepted [OF p _ _ this, of "as_options this"] v that
    show ?thesis by (simp add: Buffer_from_in_bounds as_options_def)
  qed
  from obj arr wrong ok show ?thesis by blast
qed

text \<open>
  The theorem at the sample key. Rejected, each with three keys: the header with the
  wrong \<open>alg\<close>, the header with \<open>b64\<close> true, the header with a second entry in
  \<open>crit\<close>. Accepted: the three-key header that \<open>sign\<close> attaches, and the four-key
  header with an added \<open>kid\<close>, whose signature the sample primitive then refuses.
\<close>

theorem verify_invalid_header_parameters_witness:
  "truthy (publicKeyJwk (constructor sample_collaborators public_only_options))
   \<and> base64url_decode sample_collaborators (split_dotdot_first sample_wrong_alg_signature)
       = Inr wrong_alg_text
   \<and> JSON_parse sample_collaborators wrong_alg_text = Inr wrong_alg_header
   \<and> verify (verifier sample_collaborators
          (constructor sample_collaborators public_only_options))
        \<lparr>data = sample_data, signature = sample_wrong_alg_signature\<rparr>
       = (Inl InvalidHeaderParameters, [Console_error wrong_alg_header])
   \<and> fst (verify (verifier sample_collaborators
              (constructor sample_collaborators public_only_options))
            \<lparr>data = sample_data, signature = sample_b64_true_signature\<rparr>)
       = Inl InvalidHeaderParameters
   \<and> fst (verify (verifier sample_collaborators
              (constructor sample_collaborators public_only_options))
            \<lparr>data = sample_data, signature = sample_long_crit_signature\<rparr>)
       = Inl InvalidHeaderParameters
   \<and> verify (verifier sample_collaborators
          (constructor sample_collaborators public_only_options))
        \<lparr>data = sample_data, signature = sample_good_signature\<rparr>
       = (Inr True,
          [Called_verifyDetached sample_good_signature [1, 2, 3] (JObject sample_public_jwk)])
   \<and> verify (verifier sample_collaborators
          (constructor sample_collaborators public_only_options))
        \<lparr>data = sample_data, signature = sample_extra_key_signature\<rparr>
       = (Inr False,
          [Called_verifyDetached sample_extra_key_signature [1, 2, 3]
             (JObject sample_public_jwk)])"
proof -
  let ?key = "constructor sample_collaborators public_only_options"
  let ?verify = "verify (verifier sample_collaborators ?key)"
  have pk: "publicKeyJwk ?key = JObject sample_public_jwk"
    by (simp add: constructor_publicKeyJwk public_only_options_def)
  then have pub: "truthy (publicKeyJwk ?key)" by simp
  have ne: "sample_extra_key_signature \<noteq> sample_good_signature"
    by (simp add: sample_defs)
  have inb: "view_in_bounds (data \<lparr>data = sample_data, signature = sig\<rparr>)" for sig
    by (simp add: sample_data_in_bounds)
  note at_wrong = verify_invalid_header_parameters
    [OF pub sample_decode(2) sample_JSON_parse(2), of sample_data]
  note at_b64 = verify_invalid_header_parameters
    [OF pub sample_decode(4) sample_JSON_parse(4), of sample_data]
  note at_crit = verify_invalid_header_parameters
    [OF pub sample_decode(5) sample_JSON_parse(5), of sample_data]
  note at_good = verify_invalid_header_parameters
    [OF pub sample_decode(1) sample_JSON_parse(1), of sample_data]
  note at_extra = verify_invalid_header_parameters
    [OF pub sample_decode(3) sample_JSON_parse(3), of sample_data]
  have wrong: "?verify \<lparr>data = sample_data, signature = sample_wrong_alg_signature\<rparr>
                 = (Inl InvalidHeaderParameters, [Console_error wrong_alg_header])"
    using at_wrong [THEN conjunct2, THEN conjunct2, THEN conjunct1]
    by (simp only: wrong_alg_header_def [symmetric] simp_thms)
  have b64: "fst (?verify \<lparr>data = sample_data, signature = sample_b64_true_signature\<rparr>)
               = Inl InvalidHeaderParameters"
    using at_b64 [THEN conjunct1, rule_format, OF b64_true_header_def]
    by (simp add: of_list_eval del: fmap_of_list_simps fmdom_fmap_of_list)
  have crit: "fst (?verify \<lparr>data = sample_data, signature = sample_long_crit_signature\<rparr>)
               = Inl InvalidHeaderParameters"
    using at_crit [THEN conjunct1, rule_format, OF long_crit_header_def]
    by (simp add: of_list_eval del: fmap_of_list_simps fmdom_fmap_of_list)
  have good: "?verify \<lparr>data = sample_data, signature = sample_good_signature\<rparr>
       = (Inr True,
          [Called_verifyDetached sample_good_signature [1, 2, 3] (JObject sample_public_jwk)])"
    using at_good [THEN conjunct2, THEN conjunct2, THEN conjunct2, rule_format,
                   OF conjI [OF sign_header_def]] inb
    by (simp add: of_list_eval sample_payload pk sample_verifyDetached
             del: fmap_of_list_simps fmdom_fmap_of_list)
  have extra: "?verify \<lparr>data = sample_data, signature = sample_extra_key_signature\<rparr>
       = (Inr False,
          [Called_verifyDetached sample_extra_key_signature [1, 2, 3]
             (JObject sample_public_jwk)])"
    using at_extra [THEN conjunct2, THEN conjunct2, THEN conjunct2, rule_format,
                    OF conjI [OF extra_key_header_def]] inb ne
    by (simp add: of_list_eval sample_payload pk sample_verifyDetached
             del: fmap_of_list_simps fmdom_fmap_of_list)
  from pub wrong b64 crit good extra sample_decode(2) [of sample_data] sample_JSON_parse(2)
  show ?thesis by simp
qed

section \<open>The boolean result of verification\<close>

text \<open>
  Claim C2. Take a key with public key material and a payload view that lies inside
  its buffer, as every typed array does. For a header that parses, is an object and
  passes validation, \<open>verify\<close> returns \<open>true\<close> exactly when the verification
  primitive completes without raising and \<open>false\<close> when it raises. The only errors
  \<open>verify\<close> propagates are the header-parse error, the invalid-header error and the
  invalid-header-parameters error.
\<close>

theorem verify_returns_primitive_outcome:
  assumes pub: "truthy (publicKeyJwk this)"
    and view: "view_in_bounds (data input)"
  shows "(\<forall>header.
            parse_header ext (split_dotdot_first (signature input)) = Inr header \<and>
            truthy header \<and> typeof_object header \<and>
            \<not> (\<not> header_matches header \<and> Object_keys_length header = 3)
            \<longrightarrow> fst (verify (verifier ext this) input) =
                  Inr (\<not> isl (verifyDetached ext (signature input) (payload_of (data input))
                          (publicKeyJwk this))))
       \<and> (\<forall>e. fst (verify (verifier ext this) input) = Inl e
            \<longrightarrow> (\<exists>cause. e = HeaderParseError cause) \<or> e = InvalidHeaderShape
                \<or> e = InvalidHeaderParameters)"
proof (intro conjI allI impI)
  fix header
  assume h: "parse_header ext (split_dotdot_first (signature input)) = Inr header \<and>
            truthy header \<and> typeof_object header \<and>
            \<not> (\<not> header_matches header \<and> Object_keys_length header = 3)"
  then show "fst (verify (verifier ext this) input) =
     Inr (\<not> isl (verifyDetached ext (signature input) (payload_of (data input))
                   (publicKeyJwk this)))"
    using jose_verify_accepted [of ext input header "as_options this"] pub view
    by (simp add: verifier_with_public_key Buffer_from_in_bounds as_options_def)
next
  fix e
  assume e: "fst (verify (verifier ext this) input) = Inl e"
  let ?p = "parse_header ext (split_dotdot_first (signature input))"
  have v: "verify (verifier ext this) input = jose_verify ext (as_options this) input"
    using pub by (simp add: verifier_with_public_key)
  show "(\<exists>cause. e = HeaderParseError cause) \<or> e = InvalidHeaderShape
          \<or> e = InvalidHeaderParameters"
  proof (cases ?p)
    case (Inl cause)
    then show ?thesis using e v by (auto simp: jose_verify_unparsed)
  next
    case (Inr header)
    show ?thesis
    proof (cases "truthy header \<and> typeof_object header")
      case False
      then show ?thesis using e v jose_verify_bad_shape [OF Inr False] by simp
    next
      case True
      show ?thesis
      proof (cases "\<not> header_matches header \<and> Object_keys_length header = 3")
        case rejected: True
        then show ?thesis
          using e v True jose_verify_rejected [OF Inr] by auto
      next
        case accepted: False
        then show ?thesis
          using e v True view jose_verify_accepted [OF Inr _ _ accepted, of "as_options this"]
          by (simp add: Buffer_from_in_bounds)
      qed
    qed
  qed
qed

text \<open>
  The theorem at the sample key: the accepted signature gives \<open>true\<close>, a tampered
  one gives \<open>false\<close>.
\<close>

theorem verify_returns_primitive_outcome_witness:
  "truthy (publicKeyJwk (constructor sample_collaborators public_only_options))
   \<and> view_in_bounds sample_data
   \<and> fst (verify (verifier sample_collaborators
              (constructor sample_collaborators public_only_options))
            \<lparr>data = sample_data, signature = sample_good_signature\<rparr>) = Inr True
   \<and> fst (verify (verifier sample_collaborators
              (constructor sample_collaborators public_only_options))
            \<lparr>data = sample_data, signature = sample_tampered_signature\<rparr>) = Inr False"
proof -
  let ?key = "constructor sample_collaborators public_only_options"
  have pub: "truthy (publicKeyJwk ?key)"
    by (simp add: constructor_publicKeyJwk public_only_options_def)
  have s: "truthy sign_header" "typeof_object sign_header"
    by (simp_all add: sign_header_def)
  have ne: "sample_tampered_signature \<noteq> sample_good_signature"
    by (simp add: sample_defs)
  have v1: "view_in_bounds (data \<lparr>data = sample_data, signature = sample_good_signature\<rparr>)"
    by (simp add: sample_data_in_bounds)
  have v2: "view_in_bounds (data \<lparr>data = sample_data, signature = sample_tampered_signature\<rparr>)"
    by (simp add: sample_data_in_bounds)
  show ?thesis
    using verify_returns_primitive_outcome [OF pub v1, of sample_collaborators]
          verify_returns_primitive_outcome [OF pub v2, of sample_collaborators]
          pub s ne
    by (simp add: sample_parse_good sample_parse_tampered sign_header_matches
                  sample_verifyDetached sample_data_in_bounds)
qed

section \<open>Verification with a key built from private material only\<close>

text \<open>
  Claim C3, as amended. For every key constructed with only private key material
  (no \<open>publicKeyJwk\<close> supplied) the constructor derives \<open>publicKeyJwk\<close> from the
  private JWK by removing \<open>d\<close>; \<open>verifier().verify(...)\<close> then runs the ordinary
  verification on the derived key and never fails with \<open>NoPublicKey\<close>.
\<close>

theorem private_only_key_verifies_with_derived_key:
  assumes "opt_publicKeyJwk options = JUndefined"
  shows "publicKeyJwk (constructor ext options) =
           JObject (fmdrop ''d'' (own_props (opt_privateKeyJwk options)))
       \<and> verify (verifier ext (constructor ext options)) input =
           jose_verify ext (as_options (constructor ext options)) input
       \<and> fst (verify (verifier ext (constructor ext options)) input) \<noteq> Inl NoPublicKey"
proof -
  have pk: "publicKeyJwk (constructor ext options) =
           JObject (fmdrop ''d'' (own_props (opt_privateKeyJwk options)))"
    using assms by (simp add: constructor_publicKeyJwk)
  then have "truthy (publicKeyJwk (constructor ext options))" by simp
  then have "verify (verifier ext (constructor ext options)) =
           jose_verify ext (as_options (constructor ext options))"
    by (rule verifier_with_public_key)
  with pk show ?thesis by (simp add: jose_verify_not_NoPublicKey)
qed

theorem private_only_key_verifies_with_derived_key_witness:
  "opt_publicKeyJwk private_only_options = JUndefined
   \<and> publicKeyJwk (constructor sample_collaborators private_only_options)
       = JObject sample_public_jwk
   \<and> fst (verify (verifier sample_collaborators
              (constructor sample_collaborators private_only_options))
            \<lparr>data = sample_data, signature = sample_good_signature\<rparr>) \<noteq> Inl NoPublicKey"
proof -
  have u: "opt_publicKeyJwk private_only_options = JUndefined"
    by (simp add: private_only_options_def)
  have d: "fmdrop ''d'' (own_props (opt_privateKeyJwk private_only_options)) = sample_public_jwk"
    by (simp add: private_only_options_def sample_private_without_d)
  from private_only_key_verifies_with_derived_key [OF u, of sample_collaborators
         "\<lparr>data = sample_data, signature = sample_good_signature\<rparr>"]
  show ?thesis unfolding d using u by blast
qed

text \<open>
  Claim C3 as stated fails: the key constructed from the sample private JWK alone
  verifies the accepted signature and returns \<open>true\<close>, calling the primitive with
  the derived public JWK.
\<close>

theorem private_only_key_verify_counterexample:
  "opt_privateKeyJwk private_only_options = JObject sample_private_jwk
   \<and> opt_publicKeyJwk private_only_options = JUndefined
   \<and> verify (verifier sample_collaborators
          (constructor sample_collaborators private_only_options))
        \<lparr>data = sample_data, signature = sample_good_signature\<rparr>
     = (Inr True,
        [Called_verifyDetached sample_good_signature [1, 2, 3] (JObject sample_public_jwk)])"
proof -
  let ?key = "constructor sample_collaborators private_only_options"
  let ?input = "\<lparr>data = sample_data, signature = sample_good_signature\<rparr>"
  have o: "opt_privateKeyJwk private_only_options = JObject sample_private_jwk"
    "opt_publicKeyJwk private_only_options = JUndefined"
    by (simp_all add: private_only_options_def)
  have p: "parse_header sample_collaborators (split_dotdot_first (signature ?input))
             = Inr sign_header"
    by (simp add: sample_parse_good)
  have s: "truthy sign_header" "typeof_object sign_header"
    by (simp_all add: sign_header_def)
  have m: "\<not> (\<not> header_matches sign_header \<and> Object_keys_length sign_header = 3)"
    by (simp add: sign_header_matches)
  have "verify (verifier sample_collaborators ?key) ?input
          = jose_verify sample_collaborators (as_options ?key) ?input"
    by (simp add: verifier_with_public_key sample_private_only_publicKeyJwk)
  also have "\<dots> = (Inr True,
        [Called_verifyDetached sample_good_signature [1, 2, 3] (JObject sample_public_jwk)])"
    using jose_verify_accepted [OF p s m, of "as_options ?key"]
    by (simp add: Buffer_from_in_bounds sample_data_in_bounds sample_payload
                  sample_verifyDetached as_options_def sample_private_only_publicKeyJwk)
  finally show ?thesis using o by simp
qed

section \<open>Signing without a private key\<close>

text \<open>
  Claim C4. For every key constructed without private key material, \<open>signer()\<close>
  returns a signer object (neither the constructor nor \<open>signer\<close> can fail), and every
  call of its \<open>sign\<close> fails with the no-private-key error and an empty list of
  effects: the signing primitive is not called.
\<close>

theorem signer_without_private_key:
  assumes "\<not> truthy (opt_privateKeyJwk options)"
  shows "signer ext (constructor ext options) =
           \<lparr>sign = (\<lambda>input. (Inl NoPrivateKey, []))\<rparr>
       \<and> sign (signer ext (constructor ext options)) input = (Inl NoPrivateKey, [])"
  using assms
  by (simp add: signer_def joseSignerFactory_def as_options_def constructor_privateKeyJwk
                NoPrivateKey_def)

theorem signer_without_private_key_witness:
  "\<not> truthy (opt_privateKeyJwk public_only_options)
   \<and> sign (signer sample_collaborators (constructor sample_collaborators public_only_options))
        \<lparr>data = sample_data\<rparr> = (Inl NoPrivateKey, [])"
proof -
  have u: "\<not> truthy (opt_privateKeyJwk public_only_options)"
    by (simp add: public_only_options_def)
  show ?thesis
    using signer_without_private_key [OF u, of sample_collaborators "\<lparr>data = sample_data\<rparr>"] u
    by simp
qed

section \<open>Derived public key and fingerprint\<close>

text \<open>
  Claim C5. For every private JWK \<open>k\<close> with a member \<open>d\<close>, constructing a key
  with only \<open>privateKeyJwk = k\<close> gives \<open>publicKeyJwk\<close> equal to \<open>k\<close> without
  \<open>d\<close>, and the instance \<open>fingerprint()\<close> equals \<open>fingerprintFromPublicKey\<close>
  applied to any options record that carries this derived public key.
\<close>

theorem derived_public_key_and_fingerprint:
  assumes "''d'' |\<in>| fmdom k"
    and "opt_privateKeyJwk options = JObject k"
    and "opt_publicKeyJwk options = JUndefined"
    and "opt_publicKeyJwk other = publicKeyJwk (constructor ext options)"
  shows "publicKeyJwk (constructor ext options) = JObject (fmdrop ''d'' k)
       \<and> fingerprint ext (constructor ext options) = fingerprintFromPublicKey ext other"
  using assms by (simp add: constructor_publicKeyJwk fingerprint_eq fingerprintFromPublicKey_eq)

theorem derived_public_key_and_fingerprint_witness:
  "''d'' |\<in>| fmdom sample_private_jwk
   \<and> opt_privateKeyJwk private_only_options = JObject sample_private_jwk
   \<and> opt_publicKeyJwk private_only_options = JUndefined
   \<and> opt_publicKeyJwk public_only_options
       = publicKeyJwk (constructor sample_collaborators private_only_options)
   \<and> publicKeyJwk (constructor sample_collaborators private_only_options)
       = JObject sample_public_jwk
   \<and> fingerprint sample_collaborators (constructor sample_collaborators private_only_options)
       = fingerprintFromPublicKey sample_collaborators public_only_options"
proof -
  have d: "''d'' |\<in>| fmdom sample_private_jwk"
    by (simp add: sample_private_jwk_def)
  have a: "opt_privateKeyJwk private_only_options = JObject sample_private_jwk"
    and b: "opt_publicKeyJwk private_only_options = JUndefined"
    by (simp_all add: private_only_options_def)
  have c: "opt_publicKeyJwk public_only_options
             = publicKeyJwk (constructor sample_collaborators private_only_options)"
    by (simp add: public_only_options_def sample_private_only_publicKeyJwk)
  show ?thesis
    using derived_public_key_and_fingerprint [OF d a b c] d a b c
    by (simp add: sample_private_without_d)
qed

text \<open>
  Claim C6. The fingerprint is a function of the public JWK with \<open>kid\<close> removed:
  for every JWK \<open>k\<close> and every value \<open>v\<close>, \<open>fingerprintFromPublicKey\<close> gives the
  same result for \<open>k\<close> with \<open>kid\<close> set to \<open>v\<close>, for \<open>k\<close> itself and for \<open>k\<close>
  without \<open>kid\<close>, and so does \<open>fingerprint()\<close> of the keys constructed from them.
\<close>

theorem fingerprint_ignores_kid:
  "fingerprintFromPublicKey ext (options\<lparr>opt_publicKeyJwk := JObject (fmupd ''kid'' v k)\<rparr>)
     = fingerprintFromPublicKey ext (options\<lparr>opt_publicKeyJwk := JObject (fmdrop ''kid'' k)\<rparr>)
   \<and> fingerprintFromPublicKey ext (options\<lparr>opt_publicKeyJwk := JObject k\<rparr>)
     = fingerprintFromPublicKey ext (options\<lparr>opt_publicKeyJwk := JObject (fmdrop ''kid'' k)\<rparr>)
   \<and> fingerprint ext
        (constructor ext (options\<lparr>opt_publicKeyJwk := JObject (fmupd ''kid'' v k)\<rparr>))
     = fingerprint ext
        (constructor ext (options\<lparr>opt_publicKeyJwk := JObject (fmdrop ''kid'' k)\<rparr>))
   \<and> fingerprint ext (constructor ext (options\<lparr>opt_publicKeyJwk := JObject k\<rparr>))
     = fingerprint ext
        (constructor ext (options\<lparr>opt_publicKeyJwk := JObject (fmdrop ''kid'' k)\<rparr>))"
  by (simp add: fingerprint_eq fingerprintFromPublicKey_eq constructor_publicKeyJwk
                fmdrop_fmupd_same)

theorem fingerprint_ignores_kid_witness:
  "fingerprint sample_collaborators
     (constructor sample_collaborators
        (public_only_options
           \<lparr>opt_publicKeyJwk := JObject (fmupd ''kid'' (JString ''key-1'') sample_public_jwk)\<rparr>))
   = ''4xAbUxbGGFPv4qpHlPFAUJdzteUGR1lRK-CELCufU9w''
   \<and> fingerprintFromPublicKey sample_collaborators
       (public_only_options
          \<lparr>opt_publicKeyJwk := JObject (fmupd ''kid'' (JString ''key-1'') sample_public_jwk)\<rparr>)
   = ''4xAbUxbGGFPv4qpHlPFAUJdzteUGR1lRK-CELCufU9w''"
proof -
  have k: "fmdrop ''kid'' sample_public_jwk = sample_public_jwk"
    by (simp add: sample_public_jwk_def fmdrop_fmupd)
  have "fingerprint sample_collaborators
          (constructor sample_collaborators
             (public_only_options\<lparr>opt_publicKeyJwk := JObject (fmdrop ''kid'' sample_public_jwk)\<rparr>))
        = ''4xAbUxbGGFPv4qpHlPFAUJdzteUGR1lRK-CELCufU9w''"
    using sample_fingerprint by (simp add: k fingerprint_eq constructor_publicKeyJwk)
  moreover have "fingerprintFromPublicKey sample_collaborators
             (public_only_options\<lparr>opt_publicKeyJwk := JObject (fmdrop ''kid'' sample_public_jwk)\<rparr>)
        = ''4xAbUxbGGFPv4qpHlPFAUJdzteUGR1lRK-CELCufU9w''"
    using sample_fingerprint by (simp add: k fingerprintFromPublicKey_eq)
  ultimately show ?thesis
    using fingerprint_ignores_kid [where ext = sample_collaborators
            and options = public_only_options and v = "JString ''key-1''"
            and k = sample_public_jwk]
    by simp
qed

section \<open>The default identifier\<close>

text \<open>
  Claim C8, as amended. When no \<open>id\<close> is supplied, or the supplied \<open>id\<close> is the
  empty string, the constructed key's \<open>id\<close> is
  \<open>controller + "#" + fingerprint()\<close>; a supplied non-empty \<open>id\<close> is used
  unchanged.
\<close>

theorem key_id_default:
  "(opt_id options = None \<or> opt_id options = Some []
      \<longrightarrow> key_id (constructor ext options) =
            controller (constructor ext options) @ ''#'' @
            fingerprint ext (constructor ext options))
   \<and> (\<forall>s. opt_id options = Some s \<and> s \<noteq> []
      \<longrightarrow> key_id (constructor ext options) = s)"
  by (auto simp: constructor_key_id constructor_controller)

theorem key_id_default_witness:
  "opt_id public_only_options = None
   \<and> key_id (constructor sample_collaborators public_only_options)
       = ''did:example:123#4xAbUxbGGFPv4qpHlPFAUJdzteUGR1lRK-CELCufU9w''
   \<and> opt_id explicit_id_options = Some ''did:example:123#key-1''
   \<and> key_id (constructor sample_collaborators explicit_id_options) = ''did:example:123#key-1''"
proof -
  have p: "opt_publicKeyJwk public_only_options = JObject sample_public_jwk"
    by (simp add: public_only_options_def)
  have a: "opt_id public_only_options = None"
    by (simp add: public_only_options_def)
  have b: "opt_id explicit_id_options = Some ''did:example:123#key-1''"
    by (simp add: explicit_id_options_def)
  have c: "controller (constructor sample_collaborators public_only_options) = ''did:example:123''"
    by (simp add: constructor_controller public_only_options_def)
  show ?thesis
    using key_id_default [of public_only_options sample_collaborators]
          key_id_default [of explicit_id_options sample_collaborators]
          a b c sample_public_only_fingerprint [OF p]
    by simp
qed

text \<open>
  Claim C8 as stated fails for the empty string: supplied as \<open>id\<close>, it is replaced
  by the default.
\<close>

theorem key_id_empty_string_counterexample:
  "opt_id empty_id_options = Some []
   \<and> key_id (constructor sample_collaborators empty_id_options)
       = ''did:example:123#4xAbUxbGGFPv4qpHlPFAUJdzteUGR1lRK-CELCufU9w''"
proof -
  have "opt_publicKeyJwk empty_id_options = JObject sample_public_jwk"
    by (simp add: empty_id_options_def)
  from sample_public_only_fingerprint [OF this] show ?thesis
    by (simp add: constructor_key_id) (simp add: empty_id_options_def)
qed

section \<open>The private exponent and the public key material\<close>

text \<open>
  Claim C9, as amended. When \<open>publicKeyJwk\<close> is omitted, the public key material
  the constructor derives has no member \<open>d\<close>; a supplied \<open>publicKeyJwk\<close> is stored
  as it is given.
\<close>

theorem derived_public_key_has_no_d:
  "(opt_publicKeyJwk options = JUndefined
      \<longrightarrow> \<not> has_own_member (publicKeyJwk (constructor ext options)) ''d'')
   \<and> (opt_publicKeyJwk options \<noteq> JUndefined
      \<longrightarrow> publicKeyJwk (constructor ext options) = opt_publicKeyJwk options)"
  by (simp add: constructor_publicKeyJwk has_own_member_def)

theorem derived_public_key_has_no_d_witness:
  "opt_publicKeyJwk private_only_options = JUndefined
   \<and> \<not> has_own_member
         (publicKeyJwk (constructor sample_collaborators private_only_options)) ''d''
   \<and> opt_publicKeyJwk public_only_options \<noteq> JUndefined
   \<and> publicKeyJwk (constructor sample_collaborators public_only_options)
       = JObject sample_public_jwk"
proof -
  have a: "opt_publicKeyJwk private_only_options = JUndefined"
    by (simp add: private_only_options_def)
  have b: "opt_publicKeyJwk public_only_options = JObject sample_public_jwk"
    by (simp add: public_only_options_def)
  show ?thesis
    using derived_public_key_has_no_d [of private_only_options sample_collaborators]
          derived_public_key_has_no_d [of public_only_options sample_collaborators] a b
    by simp
qed

text \<open>
  Claim C9 as stated fails: a JWK with \<open>d\<close> supplied as \<open>publicKeyJwk\<close> is kept,
  \<open>d\<close> included.
\<close>

theorem public_key_with_d_counterexample:
  "opt_publicKeyJwk private_as_public_options = JObject sample_private_jwk
   \<and> has_own_member
       (publicKeyJwk (constructor sample_collaborators private_as_public_options)) ''d''"
  by (simp add: constructor_publicKeyJwk private_as_public_options_def has_own_member_def
                sample_private_jwk_def)

text \<open>
  Claim C10. When \<open>publicKeyJwk\<close> is omitted, the constructed key's
  \<open>publicKeyJwk\<close> is an object: the copy of the own members of \<open>privateKeyJwk\<close>
  without \<open>d\<close>, which is the empty object when \<open>privateKeyJwk\<close> is omitted too.
  Hence \<open>verify\<close> of a constructed key fails with \<open>NoPublicKey\<close> exactly when a
  falsy \<open>publicKeyJwk\<close> other than \<open>undefined\<close> was supplied.
\<close>

theorem no_public_key_branch_reachability:
  "(opt_publicKeyJwk options = JUndefined
      \<longrightarrow> publicKeyJwk (constructor ext options) =
            JObject (fmdrop ''d'' (own_props (opt_privateKeyJwk options))))
   \<and> (opt_publicKeyJwk options = JUndefined \<and> opt_privateKeyJwk options = JUndefined
      \<longrightarrow> publicKeyJwk (constructor ext options) = JObject fmempty)
   \<and> (fst (verify (verifier ext (constructor ext options)) input) = Inl NoPublicKey
      \<longleftrightarrow> \<not> truthy (opt_publicKeyJwk options) \<and> opt_publicKeyJwk options \<noteq> JUndefined)"
proof -
  let ?key = "constructor ext options"
  have a: "fst (verify (verifier ext ?key) input) \<noteq> Inl NoPublicKey"
    if "truthy (publicKeyJwk ?key)"
    using that by (simp add: verifier_with_public_key jose_verify_not_NoPublicKey)
  have b: "fst (verify (verifier ext ?key) input) = Inl NoPublicKey"
    if "\<not> truthy (publicKeyJwk ?key)"
    using that by (simp add: verifier_without_public_key)
  have c: "truthy (publicKeyJwk ?key) \<longleftrightarrow>
           \<not> (\<not> truthy (opt_publicKeyJwk options) \<and> opt_publicKeyJwk options \<noteq> JUndefined)"
    by (simp add: constructor_publicKeyJwk)
  from a b c show ?thesis by (auto simp: constructor_publicKeyJwk)
qed

theorem no_public_key_branch_reachability_witness:
  "opt_publicKeyJwk private_only_options = JUndefined
   \<and> publicKeyJwk (constructor sample_collaborators private_only_options)
       = JObject sample_public_jwk
   \<and> fst (verify (verifier sample_collaborators
              (constructor sample_collaborators private_only_options))
            \<lparr>data = sample_data, signature = sample_good_signature\<rparr>) \<noteq> Inl NoPublicKey
   \<and> opt_publicKeyJwk null_public_options = JNull
   \<and> fst (verify (verifier sample_collaborators
              (constructor sample_collaborators null_public_options))
            \<lparr>data = sample_data, signature = sample_good_signature\<rparr>) = Inl NoPublicKey"
proof -
  have a: "opt_publicKeyJwk private_only_options = JUndefined"
    and p: "opt_privateKeyJwk private_only_options = JObject sample_private_jwk"
    by (simp_all add: private_only_options_def)
  have b: "opt_publicKeyJwk null_public_options = JNull"
    by (simp add: null_public_options_def)
  show ?thesis
    using no_public_key_branch_reachability [of private_only_options sample_collaborators
            "\<lparr>data = sample_data, signature = sample_good_signature\<rparr>"]
          no_public_key_branch_reachability [of null_public_options sample_collaborators
            "\<lparr>data = sample_data, signature = sample_good_signature\<rparr>"]
          a b p
    by (simp add: sample_private_without_d)
qed

section \<open>The context resolver\<close>

text \<open>
  The table lookup \<open>contexts[url]\<close> follows the prototype chain, so the name of a
  member inherited from \<open>Object.prototype\<close> finds that member.
\<close>

lemma contexts_inherited:
  "k \<in> set Object_prototype_names \<Longrightarrow> get_member (contexts docs) k = JInherited k"
  by (auto simp: contexts_def fmlookup_of_list Object_prototype_def Object_prototype_names_def)

text \<open>
  Claim C7 at the URL \<open>constructor\<close>, which is neither a key of the context table
  nor the example DID: the claim demands the unsupported-URL error, the loader
  returns the inherited member as the document.
\<close>

theorem customLoader_inherited_member:
  "customLoader docs ''constructor'' =
     Inr \<lparr>contextUrl = JNull, document = JInherited ''constructor'',
          documentUrl = ''constructor''\<rparr>"
  by (simp add: customLoader_def contexts_inherited Object_prototype_names_def)

text \<open>
  At every other URL the loader does what claim C7 says, provided the five
  documents of the table are truthy (as objects are): a table URL gives its
  document, a URL whose part before \<open>#\<close> is \<open>did:example:123\<close> gives the example
  DID document, anything else the unsupported-URL error.
\<close>

lemma customLoader_elsewhere:
  assumes "documents_truthy docs" and "url \<notin> set Object_prototype_names"
  shows "customLoader docs url =
     (if url \<in> set context_urls
      then Inr \<lparr>contextUrl = JNull, document = preloaded docs url, documentUrl = url\<rparr>
      else if split_hash_first url = ''did:example:123''
      then Inr \<lparr>contextUrl = JNull, document = didDoc docs, documentUrl = url\<rparr>
      else Inl (UnsupportedContextUrl url))"
  using assms
  by (auto simp: customLoader_def contexts_def fmlookup_of_list Object_prototype_def
        context_urls_def preloaded_def documents_truthy_def UnsupportedContextUrl_def)

end
